theory Spec2Isabelle
  imports Main "HOL-Library.Word"
begin

unbundle bit_operations_syntax

section \<open>Data model of dns_to_doh.py\<close>

text \<open>
  A DNS message is a Python \<open>bytes\<close> value: a list of octets. Hostnames and the
  dotted addresses kept in the override table are Python \<open>str\<close> values.
\<close>

type_synonym bytes = "8 word list"
type_synonym hostname = string

text \<open>
  The exceptions the modelled statements can raise. The first four derive from Python's
  \<open>Exception\<close>; \<open>KeyboardInterrupt\<close> derives from \<open>BaseException\<close> only, so
  \<open>except Exception\<close> does not catch it.
\<close>

datatype exn = ValueError | KeyError | OSError | RequestException | KeyboardInterrupt

fun is_Exception :: "exn \<Rightarrow> bool" where
  "is_Exception KeyboardInterrupt = False"
| "is_Exception _ = True"

subsection \<open>Addresses and networks (module ipaddress)\<close>

text \<open>
  \<open>ipaddress.ip_address\<close> turns a string into an address object or raises
  \<open>ValueError\<close>. A host string is represented by what that parse makes of it: an IPv4
  address (32 bits), an IPv6 address (128 bits), or no address at all.
\<close>

type_synonym ipv4 = "32 word"

datatype ip_obj = IPv4Address ipv4 | IPv6Address "128 word"

datatype host = Literal ip_obj | NotAnAddress

definition ip_address :: "host \<Rightarrow> exn + ip_obj" where
  "ip_address ip = (case ip of Literal ip_obj \<Rightarrow> Inr ip_obj | NotAnAddress \<Rightarrow> Inl ValueError)"

definition ipv4_of_octets :: "nat \<Rightarrow> nat \<Rightarrow> nat \<Rightarrow> nat \<Rightarrow> ipv4" where
  "ipv4_of_octets a b c d = of_nat (((a * 256 + b) * 256 + c) * 256 + d)"

text \<open>
  \<open>ipaddress.ip_network('a.b.c.d/p')\<close> is the pair of the network address and the
  prefix length; its netmask has the upper \<open>p\<close> bits set. Membership
  (\<open>ip_obj in network\<close>) is false across IP versions, and otherwise compares the masked
  address with the network address.
\<close>

type_synonym ipv4_network = "ipv4 \<times> nat"

definition netmask :: "nat \<Rightarrow> ipv4" where
  "netmask prefixlen = NOT (mask (32 - prefixlen))"

fun network_contains :: "ipv4_network \<Rightarrow> ip_obj \<Rightarrow> bool" where
  "network_contains (network_address, prefixlen) (IPv4Address a) =
     (a AND netmask prefixlen = network_address)"
| "network_contains (network_address, prefixlen) (IPv6Address a) = False"

text \<open>The configured list, in the source's order.\<close>

definition BOGON_IP_RANGES :: "ipv4_network list" where
  "BOGON_IP_RANGES =
     [(ipv4_of_octets 0 0 0 0, 8),
      (ipv4_of_octets 127 0 0 0, 8),
      (ipv4_of_octets 169 254 0 0, 16),
      (ipv4_of_octets 192 0 2 0, 24),
      (ipv4_of_octets 198 51 100 0, 24),
      (ipv4_of_octets 203 0 113 0, 24),
      (ipv4_of_octets 255 255 255 255, 32)]"

text \<open>The \<open>for net in BOGON_IP_RANGES\<close> loop: the first match returns.\<close>

fun bogon_loop :: "ip_obj \<Rightarrow> ipv4_network list \<Rightarrow> bool" where
  "bogon_loop ip_obj [] = False"
| "bogon_loop ip_obj (net # nets) =
     (if network_contains net ip_obj then True else bogon_loop ip_obj nets)"

definition is_bogon_ip :: "host \<Rightarrow> exn + bool" where
  "is_bogon_ip ip =
     (case ip_address ip of
        Inl e \<Rightarrow> Inl e
      | Inr ip_obj \<Rightarrow> Inr (bogon_loop ip_obj BOGON_IP_RANGES))"

subsection \<open>The static override table\<close>

text \<open>
  \<open>static_ip_mappings\<close> is a module-level \<open>dict\<close> from \<open>str\<close> to \<open>str\<close>. The
  functions that mutate it take the table and return the new one, together with the log
  records they emit.
\<close>

type_synonym table = "hostname \<rightharpoonup> string"

type_synonym addr = "host \<times> nat"

datatype log_msg =
    AddedMapping hostname string
  | RemovedMapping hostname
  | ReceivedQuery host
  | BlockedBogon host
  | RespondingStatic hostname string
  | ForwardedQuery
  | ResponseStatus int
  | ForwardedResponse addr
  | ErrorForwarding int
  | LoopError exn

text \<open>\<open>del d[k]\<close> raises \<open>KeyError\<close> when the key is absent; \<open>d[k]\<close> likewise.\<close>

definition py_delitem :: "table \<Rightarrow> hostname \<Rightarrow> exn + table" where
  "py_delitem d k = (if k \<in> dom d then Inr (d(k := None)) else Inl KeyError)"

definition py_getitem :: "table \<Rightarrow> hostname \<Rightarrow> exn + string" where
  "py_getitem d k = (case d k of None \<Rightarrow> Inl KeyError | Some v \<Rightarrow> Inr v)"

definition add_static_ip_mapping ::
  "hostname \<Rightarrow> string \<Rightarrow> table \<Rightarrow> exn + (table \<times> log_msg list)" where
  "add_static_ip_mapping hostname ip static_ip_mappings =
     Inr (static_ip_mappings(hostname \<mapsto> ip), [AddedMapping hostname ip])"

definition remove_static_ip_mapping ::
  "hostname \<Rightarrow> table \<Rightarrow> exn + (table \<times> log_msg list)" where
  "remove_static_ip_mapping hostname static_ip_mappings =
     (if hostname \<in> dom static_ip_mappings
      then (case py_delitem static_ip_mappings hostname of
              Inl e \<Rightarrow> Inl e
            | Inr d \<Rightarrow> Inr (d, [RemovedMapping hostname]))
      else Inr (static_ip_mappings, []))"

text \<open>The table after an operation: the new one, or the old one where it raised.\<close>

definition table_after :: "table \<Rightarrow> exn + (table \<times> log_msg list) \<Rightarrow> table" where
  "table_after t r = (case r of Inl _ \<Rightarrow> t | Inr (t', _) \<Rightarrow> t')"

subsection \<open>Message helpers\<close>

definition extract_transaction_id :: "bytes \<Rightarrow> bytes" where
  "extract_transaction_id query = take 2 query"

definition construct_dns_response :: "bytes \<Rightarrow> bytes \<Rightarrow> bytes" where
  "construct_dns_response original_query response_data =
     (let transaction_id = extract_transaction_id original_query
      in transaction_id @ drop 2 response_data)"

definition parse_dns_query_for_hostname :: "bytes \<Rightarrow> hostname" where
  "parse_dns_query_for_hostname query = ''example.com''"

definition create_static_ip_dns_response :: "string \<Rightarrow> bytes" where
  "create_static_ip_dns_response ip = []"

subsection \<open>The query handler\<close>

text \<open>
  What the handler does to the outside world is a list of events, in order: log records,
  calls of \<open>sock.sendto\<close> and calls of \<open>requests.post\<close> (with the body posted). What the
  outside world does in return is the environment of one call: the outcome of the POST
  and whether \<open>sendto\<close> raises. The handler returns its events and the exception it
  raised, if any. A \<open>SendTo\<close> event records that \<open>sendto\<close> was called with those
  bytes and that address; where the call raised, the exception is in the result.

  \<open>handle_dns_query\<close> follows lines 135 to 182 of the source branch by branch: the bogon
  check and its fixed reply, the lookup of the extracted hostname in the table, and the
  POST to the DoH server with the relay of a status-200 answer.
\<close>

datatype level = INFO | ERROR

datatype event = Log level log_msg | SendTo bytes addr | Post bytes

datatype http_result = PostRaises exn | Response int bytes

record env =
  post_result :: http_result
  sendto_raises :: "exn option"

definition local_response :: bytes where
  "local_response = [0x00, 0x00, 0x81, 0x80, 0x00, 0x01, 0x00, 0x01, 0x00, 0x00, 0x00, 0x00]"

definition handle_dns_query ::
  "table \<Rightarrow> env \<Rightarrow> bytes \<Rightarrow> addr \<Rightarrow> event list \<times> exn option" where
  "handle_dns_query static_ip_mappings world data addr =
     (let client_ip = fst addr;
          tr0 = [Log INFO (ReceivedQuery client_ip)]
      in case is_bogon_ip client_ip of
           Inl e \<Rightarrow> (tr0, Some e)
         | Inr True \<Rightarrow>
             (tr0 @ [Log INFO (BlockedBogon client_ip), SendTo local_response addr],
              sendto_raises world)
         | Inr False \<Rightarrow>
             (let query_hostname = parse_dns_query_for_hostname data
              in if query_hostname \<in> dom static_ip_mappings
                 then (case py_getitem static_ip_mappings query_hostname of
                         Inl e \<Rightarrow> (tr0, Some e)
                       | Inr static_ip \<Rightarrow>
                           (let response_data = construct_dns_response data
                                  (create_static_ip_dns_response static_ip)
                            in (tr0 @ [Log INFO (RespondingStatic query_hostname static_ip),
                                       SendTo response_data addr],
                                sendto_raises world)))
                 else (case post_result world of
                         PostRaises e \<Rightarrow> (tr0 @ [Post data], Some e)
                       | Response status_code content \<Rightarrow>
                           (let tr1 = tr0 @ [Post data, Log INFO ForwardedQuery,
                                             Log INFO (ResponseStatus status_code)]
                            in if status_code = 200
                               then (let response_data_with_id =
                                           construct_dns_response data content
                                     in case sendto_raises world of
                                          Some e \<Rightarrow>
                                            (tr1 @ [SendTo response_data_with_id addr], Some e)
                                        | None \<Rightarrow>
                                            (tr1 @ [SendTo response_data_with_id addr,
                                                    Log INFO (ForwardedResponse addr)], None))
                               else (tr1 @ [Log ERROR (ErrorForwarding status_code)], None)))))"

text \<open>The datagrams handed to \<open>sendto\<close>, and the bodies posted upstream.\<close>

fun sends :: "event list \<Rightarrow> (bytes \<times> addr) list" where
  "sends [] = []"
| "sends (SendTo b a # es) = (b, a) # sends es"
| "sends (_ # es) = sends es"

fun posts :: "event list \<Rightarrow> bytes list" where
  "posts [] = []"
| "posts (Post b # es) = b # posts es"
| "posts (_ # es) = posts es"

subsection \<open>The listener loop\<close>

text \<open>
  One turn of \<open>while True\<close> in \<open>start_dns_server\<close>: \<open>recvfrom\<close> raises or returns a
  datagram with its source; the handler runs; \<open>except Exception\<close> logs what it catches.
  The loop has no exit of its own: over any finite run of turns it is either still
  receiving or was ended by an exception that the handler clause does not catch.
  The datagram of a turn is what \<open>recvfrom(512)\<close> returned, at most 512 octets.
\<close>

datatype recv_result = RecvRaises exn | Datagram bytes addr

datatype loop_status = Receiving | Terminated exn

definition loop_body :: "table \<Rightarrow> recv_result \<times> env \<Rightarrow> event list \<times> exn option" where
  "loop_body static_ip_mappings turn =
     (case fst turn of
        RecvRaises e \<Rightarrow> ([], Some e)
      | Datagram data addr \<Rightarrow> handle_dns_query static_ip_mappings (snd turn) data addr)"

fun start_dns_server_loop ::
  "table \<Rightarrow> (recv_result \<times> env) list \<Rightarrow> event list \<times> loop_status" where
  "start_dns_server_loop static_ip_mappings [] = ([], Receiving)"
| "start_dns_server_loop static_ip_mappings (turn # turns) =
     (case loop_body static_ip_mappings turn of
        (tr, None) \<Rightarrow>
          (let (tr', st) = start_dns_server_loop static_ip_mappings turns
           in (tr @ tr', st))
      | (tr, Some e) \<Rightarrow>
          if is_Exception e
          then (let (tr', st) = start_dns_server_loop static_ip_mappings turns
                in (tr @ [Log ERROR (LoopError e)] @ tr', st))
          else (tr, Terminated e))"

subsection \<open>Notions the properties are stated with\<close>

text \<open>
  None of the following is code of the program. They are the vocabulary of the properties:
  the RFC 1918 private blocks, the blocks of the IANA IPv4 special-purpose registry that
  are not globally reachable (an address outside all of them counts as globally routable),
  the ANCOUNT field of a DNS header (octets 6 and 7, big-endian, of a message that has the
  12 header octets), and hostnames that differ only in the case of ASCII letters.
\<close>

definition RFC1918_RANGES :: "ipv4_network list" where
  "RFC1918_RANGES =
     [(ipv4_of_octets 10 0 0 0, 8),
      (ipv4_of_octets 172 16 0 0, 12),
      (ipv4_of_octets 192 168 0 0, 16)]"

definition rfc1918_private :: "ipv4 \<Rightarrow> bool" where
  "rfc1918_private a = list_ex (\<lambda>net. network_contains net (IPv4Address a)) RFC1918_RANGES"

definition NOT_GLOBALLY_REACHABLE :: "ipv4_network list" where
  "NOT_GLOBALLY_REACHABLE =
     [(ipv4_of_octets 0 0 0 0, 8),
      (ipv4_of_octets 10 0 0 0, 8),
      (ipv4_of_octets 100 64 0 0, 10),
      (ipv4_of_octets 127 0 0 0, 8),
      (ipv4_of_octets 169 254 0 0, 16),
      (ipv4_of_octets 172 16 0 0, 12),
      (ipv4_of_octets 192 0 0 0, 24),
      (ipv4_of_octets 192 0 2 0, 24),
      (ipv4_of_octets 192 168 0 0, 16),
      (ipv4_of_octets 198 18 0 0, 15),
      (ipv4_of_octets 198 51 100 0, 24),
      (ipv4_of_octets 203 0 113 0, 24),
      (ipv4_of_octets 240 0 0 0, 4),
      (ipv4_of_octets 255 255 255 255, 32)]"

definition globally_routable :: "ipv4 \<Rightarrow> bool" where
  "globally_routable a =
     (\<not> list_ex (\<lambda>net. network_contains net (IPv4Address a)) NOT_GLOBALLY_REACHABLE)"

definition header_ancount :: "bytes \<Rightarrow> nat option" where
  "header_ancount msg =
     (if length msg < 12 then None else Some (unat (msg ! 6) * 256 + unat (msg ! 7)))"

definition ascii_lower :: "char \<Rightarrow> char" where
  "ascii_lower c =
     (case map_of (zip ''ABCDEFGHIJKLMNOPQRSTUVWXYZ'' ''abcdefghijklmnopqrstuvwxyz'') c of
        Some l \<Rightarrow> l
      | None \<Rightarrow> c)"

definition differ_only_in_case :: "hostname \<Rightarrow> hostname \<Rightarrow> bool" where
  "differ_only_in_case h1 h2 = (h1 \<noteq> h2 \<and> map ascii_lower h1 = map ascii_lower h2)"

text \<open>
  A turn of the loop raises per-query errors only when whatever \<open>recvfrom\<close>,
  \<open>requests.post\<close> and \<open>sendto\<close> raise in it derives from \<open>Exception\<close>. The trace of a
  turn is what its body emits, followed by the error record of the handler clause where
  the body raised.
\<close>

definition turn_ok :: "recv_result \<times> env \<Rightarrow> bool" where
  "turn_ok turn =
     ((case fst turn of RecvRaises e \<Rightarrow> is_Exception e | Datagram _ _ \<Rightarrow> True) \<and>
      (case post_result (snd turn) of PostRaises e \<Rightarrow> is_Exception e | Response _ _ \<Rightarrow> True) \<and>
      (case sendto_raises (snd turn) of Some e \<Rightarrow> is_Exception e | None \<Rightarrow> True))"

definition turn_trace :: "table \<Rightarrow> recv_result \<times> env \<Rightarrow> event list" where
  "turn_trace t turn =
     (case loop_body t turn of
        (tr, None) \<Rightarrow> tr
      | (tr, Some e) \<Rightarrow> tr @ [Log ERROR (LoopError e)])"

subsection \<open>Sample inputs\<close>

text \<open>
  A query for the A record of example.com with transaction ID \<open>0xABCD\<close>; an upstream
  answer to it carrying transaction ID \<open>0x1234\<close> and one A record; a three-octet
  datagram; a client at 8.8.8.8, one at 127.0.0.1, and a source string that is no address.
\<close>

definition sample_query :: bytes where
  "sample_query =
     [0xAB, 0xCD, 0x01, 0x00, 0x00, 0x01, 0x00, 0x00, 0x00, 0x00, 0x00, 0x00,
      0x07, 0x65, 0x78, 0x61, 0x6D, 0x70, 0x6C, 0x65, 0x03, 0x63, 0x6F, 0x6D, 0x00,
      0x00, 0x01, 0x00, 0x01]"

definition sample_answer :: bytes where
  "sample_answer =
     [0x12, 0x34, 0x81, 0x80, 0x00, 0x01, 0x00, 0x01, 0x00, 0x00, 0x00, 0x00,
      0x07, 0x65, 0x78, 0x61, 0x6D, 0x70, 0x6C, 0x65, 0x03, 0x63, 0x6F, 0x6D, 0x00,
      0x00, 0x01, 0x00, 0x01,
      0xC0, 0x0C, 0x00, 0x01, 0x00, 0x01, 0x00, 0x00, 0x00, 0x3C, 0x00, 0x04,
      0x5D, 0xB8, 0xD8, 0x22]"

definition short_query :: bytes where
  "short_query = [0xAB, 0xCD, 0x01]"

definition public_client :: addr where
  "public_client = (Literal (IPv4Address (ipv4_of_octets 8 8 8 8)), 40000)"

definition loopback_client :: addr where
  "loopback_client = (Literal (IPv4Address (ipv4_of_octets 127 0 0 1)), 40000)"

definition upstream_ok :: env where
  "upstream_ok = \<lparr>post_result = Response 200 sample_answer, sendto_raises = None\<rparr>"

definition sample_turns :: "(recv_result \<times> env) list" where
  "sample_turns =
     [(RecvRaises OSError, upstream_ok),
      (Datagram sample_query (NotAnAddress, 40000), upstream_ok),
      (Datagram sample_query public_client,
         \<lparr>post_result = PostRaises RequestException, sendto_raises = None\<rparr>),
      (Datagram sample_query public_client,
         \<lparr>post_result = Response 200 sample_answer, sendto_raises = Some OSError\<rparr>),
      (Datagram sample_query public_client, upstream_ok)]"

section \<open>Auxiliary facts\<close>

lemma netmask_values:
  "netmask 8 = 0xFF000000" "netmask 12 = 0xFFF00000" "netmask 16 = 0xFFFF0000"
  "netmask 24 = 0xFFFFFF00" "netmask 32 = 0xFFFFFFFF"
  by (simp_all add: netmask_def mask_eq_exp_minus_1)

lemma bogon_loop_iff:
  "bogon_loop ip_obj nets = (\<exists>net \<in> set nets. network_contains net ip_obj)"
  by (induction nets) auto

text \<open>
  Two masked views of one address agree on the bits both masks keep; so a network whose
  address differs from another's on those bits shares no address with it.
\<close>

lemma masked_apart:
  fixes a :: ipv4
  assumes "a AND m1 = b1" and "b1 AND m2 \<noteq> b2 AND m1"
  shows "a AND m2 \<noteq> b2"
proof
  assume "a AND m2 = b2"
  have "b1 AND m2 = (a AND m1) AND m2" using assms(1) by simp
  also have "\<dots> = (a AND m2) AND m1" by (simp add: and.assoc and.left_commute and.commute)
  also have "\<dots> = b2 AND m1" using \<open>a AND m2 = b2\<close> by simp
  finally show False using assms(2) by simp
qed

lemma not_listed:
  "\<not> bogon_loop (IPv4Address a) BOGON_IP_RANGES \<longleftrightarrow>
     a AND 0xFF000000 \<noteq> 0 \<and> a AND 0xFF000000 \<noteq> 0x7F000000 \<and>
     a AND 0xFFFF0000 \<noteq> 0xA9FE0000 \<and> a AND 0xFFFFFF00 \<noteq> 0xC0000200 \<and>
     a AND 0xFFFFFF00 \<noteq> 0xC6336400 \<and> a AND 0xFFFFFF00 \<noteq> 0xCB007100 \<and>
     a AND 0xFFFFFFFF \<noteq> 0xFFFFFFFF"
  by (simp add: BOGON_IP_RANGES_def ipv4_of_octets_def netmask_values)

lemma not_bogon_10:
  assumes "a AND 0xFF000000 = 0x0A000000"
  shows "\<not> bogon_loop (IPv4Address a) BOGON_IP_RANGES"
  unfolding not_listed
  by (intro conjI; rule masked_apart[OF assms]; simp)

lemma not_bogon_172:
  assumes "a AND 0xFFF00000 = 0xAC100000"
  shows "\<not> bogon_loop (IPv4Address a) BOGON_IP_RANGES"
  unfolding not_listed
  by (intro conjI; rule masked_apart[OF assms]; simp)

lemma not_bogon_192:
  assumes "a AND 0xFFFF0000 = 0xC0A80000"
  shows "\<not> bogon_loop (IPv4Address a) BOGON_IP_RANGES"
  unfolding not_listed
  by (intro conjI; rule masked_apart[OF assms]; simp)

lemma rfc1918_private_iff:
  "rfc1918_private a \<longleftrightarrow>
     a AND 0xFF000000 = 0x0A000000 \<or> a AND 0xFFF00000 = 0xAC100000 \<or>
     a AND 0xFFFF0000 = 0xC0A80000"
  by (simp add: rfc1918_private_def RFC1918_RANGES_def ipv4_of_octets_def netmask_values)

lemma rfc1918_not_bogon:
  "rfc1918_private a \<Longrightarrow> \<not> bogon_loop (IPv4Address a) BOGON_IP_RANGES"
  unfolding rfc1918_private_iff using not_bogon_10 not_bogon_172 not_bogon_192 by blast

lemma global_not_bogon:
  "globally_routable a \<Longrightarrow> \<not> bogon_loop (IPv4Address a) BOGON_IP_RANGES"
  unfolding not_listed
  by (simp add: globally_routable_def NOT_GLOBALLY_REACHABLE_def ipv4_of_octets_def
      netmask_values)

lemma public_client_not_bogon: "is_bogon_ip (fst public_client) = Inr False"
  by (simp add: public_client_def is_bogon_ip_def ip_address_def BOGON_IP_RANGES_def
      ipv4_of_octets_def netmask_values)

lemma loopback_client_bogon: "is_bogon_ip (fst loopback_client) = Inr True"
  by (simp add: loopback_client_def is_bogon_ip_def ip_address_def BOGON_IP_RANGES_def
      ipv4_of_octets_def netmask_values)

section \<open>The bogon filter: properties\<close>

text \<open>
  Claim C3. For an IPv4 source address, \<open>is_bogon_ip\<close> returns true when the address lies
  in one of the configured ranges, and false when it is an RFC 1918 private address or a
  globally routable one.
\<close>

theorem C3_is_bogon_ip_classification:
  "(list_ex (\<lambda>net. network_contains net (IPv4Address a)) BOGON_IP_RANGES \<longrightarrow>
      is_bogon_ip (Literal (IPv4Address a)) = Inr True) \<and>
   (rfc1918_private a \<longrightarrow> is_bogon_ip (Literal (IPv4Address a)) = Inr False) \<and>
   (globally_routable a \<longrightarrow> is_bogon_ip (Literal (IPv4Address a)) = Inr False)"
  using rfc1918_not_bogon [of a] global_not_bogon [of a]
  by (simp add: is_bogon_ip_def ip_address_def bogon_loop_iff list_ex_iff)

theorem C3_witness:
  "list_ex (\<lambda>net. network_contains net (IPv4Address (ipv4_of_octets 127 0 0 1))) BOGON_IP_RANGES \<and>
   is_bogon_ip (Literal (IPv4Address (ipv4_of_octets 127 0 0 1))) = Inr True \<and>
   rfc1918_private (ipv4_of_octets 192 168 1 20) \<and>
   is_bogon_ip (Literal (IPv4Address (ipv4_of_octets 192 168 1 20))) = Inr False \<and>
   globally_routable (ipv4_of_octets 8 8 8 8) \<and>
   is_bogon_ip (Literal (IPv4Address (ipv4_of_octets 8 8 8 8))) = Inr False"
proof -
  have lo: "list_ex (\<lambda>net. network_contains net (IPv4Address (ipv4_of_octets 127 0 0 1)))
      BOGON_IP_RANGES"
    by (simp add: BOGON_IP_RANGES_def ipv4_of_octets_def netmask_values)
  have pr: "rfc1918_private (ipv4_of_octets 192 168 1 20)"
    by (simp add: rfc1918_private_iff ipv4_of_octets_def)
  have gl: "globally_routable (ipv4_of_octets 8 8 8 8)"
    by (simp add: globally_routable_def NOT_GLOBALLY_REACHABLE_def ipv4_of_octets_def
        netmask_def mask_eq_exp_minus_1)
  show ?thesis
    using lo pr gl
      C3_is_bogon_ip_classification [of "ipv4_of_octets 127 0 0 1"]
      C3_is_bogon_ip_classification [of "ipv4_of_octets 192 168 1 20"]
      C3_is_bogon_ip_classification [of "ipv4_of_octets 8 8 8 8"]
    by blast
qed

section \<open>The query handler: properties\<close>

text \<open>
  Claim C1. When a query of at least two octets is forwarded and the upstream answers with
  status 200, exactly one datagram is handed to \<open>sendto\<close>, addressed to the client: the
  first two octets of the query followed by the upstream body from offset 2 on.
\<close>

theorem C1_forwarded_reply_splices_transaction_id:
  assumes "2 \<le> length data"
    and "is_bogon_ip (fst addr) = Inr False"
    and "parse_dns_query_for_hostname data \<notin> dom t"
    and "post_result world = Response 200 content"
  shows "sends (fst (handle_dns_query t world data addr)) =
           [(construct_dns_response data content, addr)] \<and>
         construct_dns_response data content = take 2 data @ drop 2 content \<and>
         take 2 (construct_dns_response data content) = take 2 data \<and>
         drop 2 (construct_dns_response data content) = drop 2 content"
  using assms
  by (simp add: handle_dns_query_def Let_def construct_dns_response_def
      extract_transaction_id_def split: option.splits)

theorem C1_witness:
  "2 \<le> length sample_query \<and>
   sends (fst (handle_dns_query Map.empty upstream_ok sample_query public_client)) =
     [([0xAB, 0xCD] @ drop 2 sample_answer, public_client)]"
proof -
  have len: "2 \<le> length sample_query" by (simp add: sample_query_def)
  have absent: "parse_dns_query_for_hostname sample_query \<notin> dom (Map.empty :: table)" by simp
  have up: "post_result upstream_ok = Response 200 sample_answer"
    by (simp add: upstream_ok_def)
  show ?thesis
    using len C1_forwarded_reply_splices_transaction_id
      [OF len public_client_not_bogon absent up]
    by (simp add: construct_dns_response_def extract_transaction_id_def sample_query_def)
qed

text \<open>
  Claim C2, evaluated at a query with transaction ID \<open>0xABCD\<close> from 127.0.0.1. The
  handler does reply, but with the fixed header \<open>local_response\<close>: its first two octets
  are \<open>0x0000\<close>, not the query's transaction ID, and its ANCOUNT field is 1.
\<close>

theorem C2_bogon_reply_is_fixed_header:
  "handle_dns_query Map.empty upstream_ok sample_query loopback_client =
     ([Log INFO (ReceivedQuery (fst loopback_client)),
       Log INFO (BlockedBogon (fst loopback_client)),
       SendTo [0x00, 0x00, 0x81, 0x80, 0x00, 0x01, 0x00, 0x01, 0x00, 0x00, 0x00, 0x00]
         loopback_client], None) \<and>
   take 2 sample_query = [0xAB, 0xCD] \<and>
   take 2 local_response = [0x00, 0x00] \<and>
   header_ancount local_response = Some 1"
  by (simp add: handle_dns_query_def Let_def loopback_client_bogon local_response_def
      sample_query_def header_ancount_def upstream_ok_def)

text \<open>
  Claim C4, evaluated at a query for example.com with the override
  example.com \<open>\<mapsto>\<close> 10.0.0.5 in the table. The reply is the two octets of the
  transaction ID and nothing else: no header, no answer record, no RDATA.
\<close>

theorem C4_static_reply_is_transaction_id_only:
  "sends (fst (handle_dns_query [''example.com'' \<mapsto> ''10.0.0.5''] upstream_ok
       sample_query public_client)) = [([0xAB, 0xCD], public_client)] \<and>
   create_static_ip_dns_response ''10.0.0.5'' = []"
  by (simp add: handle_dns_query_def public_client_not_bogon parse_dns_query_for_hostname_def
      py_getitem_def construct_dns_response_def extract_transaction_id_def
      create_static_ip_dns_response_def sample_query_def)

text \<open>
  Claim C5, evaluated at a three-octet datagram from 8.8.8.8, with an empty table and an
  upstream that answers with status 200. The datagram is shorter than the 12 octets of a
  DNS header, yet hostname extraction reports no failure and the handler raises nothing:
  it posts the three octets upstream as they are, and calls \<open>sendto\<close> (which does not
  raise here) with the datagram's first two octets followed by the upstream body from
  offset 2 on. The query is neither classified as malformed nor dropped.
\<close>

theorem C5_short_query_is_forwarded_and_answered:
  "length short_query < 12 \<and>
   parse_dns_query_for_hostname short_query = ''example.com'' \<and>
   handle_dns_query Map.empty upstream_ok short_query public_client =
     ([Log INFO (ReceivedQuery (fst public_client)),
       Post short_query,
       Log INFO ForwardedQuery,
       Log INFO (ResponseStatus 200),
       SendTo ([0xAB, 0xCD] @ drop 2 sample_answer) public_client,
       Log INFO (ForwardedResponse public_client)], None) \<and>
   posts (fst (handle_dns_query Map.empty upstream_ok short_query public_client)) =
     [short_query] \<and>
   sends (fst (handle_dns_query Map.empty upstream_ok short_query public_client)) =
     [([0xAB, 0xCD] @ drop 2 sample_answer, public_client)]"
  by (simp add: handle_dns_query_def Let_def public_client_not_bogon
      parse_dns_query_for_hostname_def construct_dns_response_def extract_transaction_id_def
      short_query_def upstream_ok_def)

text \<open>
  Claim C6. When a query is forwarded and the upstream answers with a status other than
  200, nothing is handed to \<open>sendto\<close>, the last record logged is the error with that
  status, the handler raises nothing, and the loop goes on to its next turn.
\<close>

theorem C6_upstream_error_drops_query:
  assumes "is_bogon_ip (fst addr) = Inr False"
    and "parse_dns_query_for_hostname data \<notin> dom t"
    and "post_result world = Response status content"
    and "status \<noteq> 200"
  shows "sends (fst (handle_dns_query t world data addr)) = [] \<and>
         last (fst (handle_dns_query t world data addr)) = Log ERROR (ErrorForwarding status) \<and>
         snd (handle_dns_query t world data addr) = None \<and>
         start_dns_server_loop t ((Datagram data addr, world) # turns) =
           (fst (handle_dns_query t world data addr) @ fst (start_dns_server_loop t turns),
            snd (start_dns_server_loop t turns))"
  using assms
  by (simp add: handle_dns_query_def Let_def loop_body_def split: prod.splits)

theorem C6_witness:
  "is_bogon_ip (fst public_client) = Inr False \<and>
   (502 :: int) \<noteq> 200 \<and>
   sends (fst (handle_dns_query Map.empty
       \<lparr>post_result = Response 502 [], sendto_raises = None\<rparr> sample_query public_client)) = [] \<and>
   last (fst (handle_dns_query Map.empty
       \<lparr>post_result = Response 502 [], sendto_raises = None\<rparr> sample_query public_client)) =
     Log ERROR (ErrorForwarding 502) \<and>
   snd (start_dns_server_loop Map.empty
       [(Datagram sample_query public_client,
         \<lparr>post_result = Response 502 [], sendto_raises = None\<rparr>)]) = Receiving"
proof -
  have absent: "parse_dns_query_for_hostname sample_query \<notin> dom (Map.empty :: table)" by simp
  have up: "post_result \<lparr>post_result = Response 502 [], sendto_raises = None\<rparr> = Response 502 []"
    by simp
  have ne: "(502 :: int) \<noteq> 200" by simp
  show ?thesis
    using public_client_not_bogon
      C6_upstream_error_drops_query [OF public_client_not_bogon absent up ne, of "[]"]
    by simp
qed

text \<open>
  Claim C7. \<open>parse_dns_query_for_hostname\<close> returns the string example.com whatever the
  query, and \<open>create_static_ip_dns_response\<close> returns the empty byte string whatever the
  address.
\<close>

theorem C7_placeholders_are_constant:
  "parse_dns_query_for_hostname query = ''example.com'' \<and>
   create_static_ip_dns_response ip = []"
  by (simp add: parse_dns_query_for_hostname_def create_static_ip_dns_response_def)

section \<open>The static override table: properties\<close>

text \<open>
  Claim C9. Adding the same (hostname, ip) mapping twice leaves the table as adding it once
  does, and removing a hostname that has no mapping returns the table unchanged, raising
  nothing (and logging nothing).
\<close>

theorem C9_add_idempotent_remove_absent_noop:
  "(\<exists>t1 l1 t2 l2.
      add_static_ip_mapping h ip t = Inr (t1, l1) \<and>
      add_static_ip_mapping h ip t1 = Inr (t2, l2) \<and> t2 = t1) \<and>
   (h \<notin> dom t \<longrightarrow> remove_static_ip_mapping h t = Inr (t, []))"
  by (simp add: add_static_ip_mapping_def remove_static_ip_mapping_def)

theorem C9_witness:
  "''internal.example'' \<notin> dom (Map.empty :: table) \<and>
   remove_static_ip_mapping ''internal.example'' Map.empty = Inr (Map.empty, [])"
  using C9_add_idempotent_remove_absent_noop [of "''internal.example''" "''10.0.0.5''" Map.empty]
  by simp

text \<open>
  Claim C8 as stated fails: the table keys are compared as they are written. A mapping
  added as Example.com is not found under example.com, and removing example.com leaves
  the mapping of Example.com in place.
\<close>

theorem C8_case_sensitive_counterexample:
  "differ_only_in_case ''Example.com'' ''example.com'' \<and>
   table_after Map.empty (add_static_ip_mapping ''Example.com'' ''10.0.0.5'' Map.empty)
     ''example.com'' = None \<and>
   py_getitem
     (table_after Map.empty (add_static_ip_mapping ''Example.com'' ''10.0.0.5'' Map.empty))
     ''example.com'' = Inl KeyError \<and>
   table_after [''Example.com'' \<mapsto> ''10.0.0.5'']
     (remove_static_ip_mapping ''example.com'' [''Example.com'' \<mapsto> ''10.0.0.5''])
     ''Example.com'' = Some ''10.0.0.5''"
  by (simp add: differ_only_in_case_def ascii_lower_def table_after_def py_getitem_def
      add_static_ip_mapping_def remove_static_ip_mapping_def)

text \<open>
  Claim C8, amended. The table treats hostnames as the same key exactly when they are the
  same string: an add is found by a lookup under the identical spelling and changes no
  other key, a remove deletes the entry of the identical spelling and no other; in
  particular, for two hostnames that differ only in letter case, adding or removing one
  leaves the entry of the other as it was.
\<close>

theorem C8_keys_compared_exactly:
  "table_after t (add_static_ip_mapping h ip t) h' = (if h' = h then Some ip else t h') \<and>
   table_after t (remove_static_ip_mapping h t) h' = (if h' = h then None else t h') \<and>
   (differ_only_in_case h h' \<longrightarrow>
      table_after t (add_static_ip_mapping h ip t) h' = t h' \<and>
      table_after t (remove_static_ip_mapping h t) h' = t h')"
  by (auto simp add: table_after_def add_static_ip_mapping_def remove_static_ip_mapping_def
      py_delitem_def differ_only_in_case_def)

theorem C8_witness:
  "differ_only_in_case ''Example.com'' ''example.com'' \<and>
   table_after [''example.com'' \<mapsto> ''10.0.0.9'']
     (add_static_ip_mapping ''Example.com'' ''10.0.0.5'' [''example.com'' \<mapsto> ''10.0.0.9''])
     ''example.com'' = Some ''10.0.0.9'' \<and>
   table_after [''example.com'' \<mapsto> ''10.0.0.9'']
     (remove_static_ip_mapping ''Example.com'' [''example.com'' \<mapsto> ''10.0.0.9''])
     ''example.com'' = Some ''10.0.0.9''"
proof -
  have d: "differ_only_in_case ''Example.com'' ''example.com''"
    by (simp add: differ_only_in_case_def ascii_lower_def)
  show ?thesis
    using d C8_keys_compared_exactly
      [of "[''example.com'' \<mapsto> ''10.0.0.9'']" "''Example.com''" "''10.0.0.5''"
          "''example.com''"]
    by simp
qed

section \<open>The listener loop: properties\<close>

lemma handle_raises_Exception:
  assumes "handle_dns_query t world data addr = (tr, Some e)"
    and "case post_result world of PostRaises e \<Rightarrow> is_Exception e | Response _ _ \<Rightarrow> True"
    and "case sendto_raises world of Some e \<Rightarrow> is_Exception e | None \<Rightarrow> True"
  shows "is_Exception e"
  using assms
  by (auto simp add: handle_dns_query_def Let_def is_bogon_ip_def ip_address_def py_getitem_def
      split: sum.splits bool.splits if_splits option.splits http_result.splits host.splits)

lemma body_raises_Exception:
  assumes "turn_ok turn" and "loop_body t turn = (tr, Some e)"
  shows "is_Exception e"
proof (cases "fst turn")
  case (RecvRaises x)
  with assms show ?thesis by (simp add: turn_ok_def loop_body_def)
next
  case (Datagram data addr)
  with assms have "handle_dns_query t (snd turn) data addr = (tr, Some e)"
    by (simp add: loop_body_def)
  with assms(1) show ?thesis
    by (intro handle_raises_Exception) (auto simp: turn_ok_def)
qed

lemma loop_step:
  assumes "turn_ok turn"
  shows "start_dns_server_loop t (turn # turns) =
           (turn_trace t turn @ fst (start_dns_server_loop t turns),
            snd (start_dns_server_loop t turns))"
proof (cases "loop_body t turn")
  case (Pair tr r)
  show ?thesis
  proof (cases r)
    case None
    with Pair show ?thesis by (simp add: turn_trace_def split: prod.splits)
  next
    case (Some e)
    with Pair assms have "is_Exception e" by (auto dest: body_raises_Exception)
    with Pair Some show ?thesis by (simp add: turn_trace_def split: prod.splits)
  qed
qed

lemma loop_append:
  assumes "list_all turn_ok pre"
  shows "start_dns_server_loop t (pre @ post) =
           (fst (start_dns_server_loop t pre) @ fst (start_dns_server_loop t post),
            snd (start_dns_server_loop t post))"
  using assms
proof (induction pre)
  case Nil
  then show ?case by simp
next
  case (Cons turn pre)
  then have ok: "turn_ok turn" and rest: "list_all turn_ok pre" by simp_all
  show ?case
    using loop_step [OF ok, of t "pre @ post"] loop_step [OF ok, of t pre] Cons.IH [OF rest]
    by simp
qed

lemma loop_receiving:
  assumes "list_all turn_ok turns"
  shows "snd (start_dns_server_loop t turns) = Receiving"
  using assms
proof (induction turns)
  case Nil
  then show ?case by simp
next
  case (Cons turn turns)
  then have ok: "turn_ok turn" and rest: "list_all turn_ok turns" by simp_all
  show ?case using loop_step [OF ok, of t turns] Cons.IH [OF rest] by simp
qed

text \<open>
  Claim C10. Over any run of turns in which whatever is raised while receiving or
  handling a datagram derives from \<open>Exception\<close>, the loop is still receiving at the end;
  every turn contributes its trace and is followed by the turns after it; and a turn
  whose body raised ends with the error record logged by the handler clause.
\<close>

theorem C10_loop_survives_per_query_errors:
  assumes "list_all turn_ok turns"
  shows "snd (start_dns_server_loop t turns) = Receiving \<and>
         (\<forall>pre turn post. turns = pre @ turn # post \<longrightarrow>
            fst (start_dns_server_loop t turns) =
              fst (start_dns_server_loop t pre) @ turn_trace t turn @
              fst (start_dns_server_loop t post)) \<and>
         (\<forall>turn \<in> set turns. \<forall>tr e. loop_body t turn = (tr, Some e) \<longrightarrow>
            turn_trace t turn = tr @ [Log ERROR (LoopError e)])"
proof (intro conjI allI impI ballI)
  show "snd (start_dns_server_loop t turns) = Receiving"
    by (rule loop_receiving [OF assms])
next
  fix pre turn post
  assume split: "turns = pre @ turn # post"
  with assms have pre: "list_all turn_ok pre" and ok: "turn_ok turn" by simp_all
  show "fst (start_dns_server_loop t turns) =
          fst (start_dns_server_loop t pre) @ turn_trace t turn @
          fst (start_dns_server_loop t post)"
    unfolding split using loop_append [OF pre, of t "turn # post"] loop_step [OF ok, of t post]
    by simp
next
  fix turn tr e
  assume "loop_body t turn = (tr, Some e)"
  then show "turn_trace t turn = tr @ [Log ERROR (LoopError e)]"
    by (simp add: turn_trace_def)
qed

lemma sample_turns_ok: "list_all turn_ok sample_turns"
  by (simp add: sample_turns_def turn_ok_def upstream_ok_def)

theorem C10_witness:
  "list_all turn_ok sample_turns \<and>
   loop_body Map.empty (hd sample_turns) = ([], Some OSError) \<and>
   snd (start_dns_server_loop Map.empty sample_turns) = Receiving \<and>
   turn_trace Map.empty (hd sample_turns) = [Log ERROR (LoopError OSError)]"
proof -
  have b: "loop_body Map.empty (hd sample_turns) = ([], Some OSError)"
    by (simp add: sample_turns_def loop_body_def)
  have m: "hd sample_turns \<in> set sample_turns"
    by (simp add: sample_turns_def)
  show ?thesis
    using sample_turns_ok b m
      C10_loop_survives_per_query_errors [OF sample_turns_ok, of Map.empty]
    by auto
qed

end
